theory Spec2Isabelle
  imports Main "HOL-Library.Word"
begin

section \<open>Errors, panics and results\<close>

text \<open>
  The controller of \<^verbatim>\<open>controllers/harvestermachine_controller.go\<close> is embedded as
  total functions.  A Go function returning \<^verbatim>\<open>(T, error)\<close> becomes a function into a sum
  whose left summand is the failure.  A run-time panic (nil dereference, index out of
  range, failed type assertion, \<^verbatim>\<open>resource.MustParse\<close>) is a failure of its own kind, kept
  apart from the error values the code returns.
\<close>

text \<open>The reason of an error reported by a client call (\<^verbatim>\<open>metav1.StatusReason\<close>).\<close>

datatype StatusReason = NotFound | AlreadyExists | Conflict | ServerTimeout | InternalError

datatype error =
    StatusError StatusReason
  | JsonError string
  | Errorf string
  | Wrap string error

text \<open>
  \<^verbatim>\<open>StatusError\<close> is an error of the platform or of the management store,
  \<^verbatim>\<open>JsonError\<close> an error of \<^verbatim>\<open>encoding/json\<close>, \<^verbatim>\<open>Errorf\<close> an error made by
  \<^verbatim>\<open>fmt.Errorf\<close> in the controller itself (with its message), and \<^verbatim>\<open>Wrap\<close> is
  \<^verbatim>\<open>errors.Wrap\<close>, \<^verbatim>\<open>errors.Wrapf\<close> or \<^verbatim>\<open>fmt.Errorf\<close> with \<^verbatim>\<open>%w\<close>.
\<close>

datatype panic = NilDereference | IndexOutOfRange | InterfaceConversion | MustParsePanic

datatype fault = Panic panic | Error error

text \<open>\<^verbatim>\<open>apierrors.IsNotFound\<close>: the error, unwrapped, carries the reason NotFound.\<close>

fun IsNotFound :: "error \<Rightarrow> bool" where
  "IsNotFound (StatusError r) = (r = NotFound)"
| "IsNotFound (Wrap msg e) = IsNotFound e"
| "IsNotFound (JsonError msg) = False"
| "IsNotFound (Errorf msg) = False"

text \<open>\<^verbatim>\<open>errors.Wrap\<close> applied to the error of a failed call; a panic is not caught.\<close>

fun wrapFault :: "string \<Rightarrow> fault \<Rightarrow> fault" where
  "wrapFault msg (Panic p) = Panic p"
| "wrapFault msg (Error e) = Error (Wrap msg e)"

section \<open>Data\<close>

text \<open>
  The value a JSON document decodes to in an \<^verbatim>\<open>interface{}\<close>.  A number is kept as the
  text of its literal: the controller never looks inside one.  A decoded object is the
  list of its entries in the order the \<^verbatim>\<open>range\<close> loop visits them.
\<close>

datatype json =
    JNull
  | JBool bool
  | JNumber string
  | JString string
  | JArray "json list"
  | JObject "(string \<times> json) list"

type_synonym Quantity = string

datatype MachineAddressType =
  MachineHostName | MachineExternalIP | MachineInternalIP | MachineExternalDNS | MachineInternalDNS

datatype MachineAddress =
  MachineAddress (addr_Type: MachineAddressType) (addr_Address: string)

record infrav1_Volume =
  ImageName :: string
  VolumeSize :: "Quantity option"

record HarvesterMachineSpec =
  TargetNamespace :: string
  CPU :: int
  Memory :: string
  Volumes :: "infrav1_Volume list"
  SSHKeyPair :: string

record HarvesterMachineStatus =
  Ready :: bool
  Addresses :: "MachineAddress list"

record infrav1_HarvesterMachine =
  hm_Name :: string
  hm_Namespace :: string
  hm_Annotations :: "string \<rightharpoonup> string"
  hm_Finalizers :: "string list"
  hm_DeletionTimestamp :: "nat option"
  hm_Spec :: HarvesterMachineSpec
  hm_Status :: HarvesterMachineStatus

record clusterv1_Cluster =
  Paused :: bool
  InfrastructureReady :: bool

record clusterv1_Machine =
  m_Namespace :: string
  DataSecretName :: "string option"

text \<open>
  The fields of \<^verbatim>\<open>Scope\<close> that hold objects.  The two clients, the context and the logger
  are not data: what the clients answer is the environment \<open>world\<close> below.
\<close>

record Scope =
  Cluster :: clusterv1_Cluster
  Machine :: clusterv1_Machine
  HarvesterMachine :: infrav1_HarvesterMachine

record VirtualMachineImage =
  img_Namespace :: string
  img_Name :: string
  DisplayName :: string

record KeyPair =
  kp_Name :: string
  PublicKey :: string

record Secret =
  sec_Name :: string
  sec_Namespace :: string
  Data :: "string \<rightharpoonup> string"

datatype VMINetworkInterface = VMINetworkInterface (IP: string)

datatype VirtualMachineInstance =
  VirtualMachineInstance (vmi_Name: string) (Interfaces: "VMINetworkInterface list")

record PersistentVolumeClaim =
  pvc_Name :: string
  pvc_Namespace :: string
  pvc_Annotations :: "string \<rightharpoonup> string"
  AccessModes :: "string list"
  Requests :: "string \<rightharpoonup> Quantity"
  VolumeMode :: string
  StorageClassName :: string

datatype VolumeSource =
    PersistentVolumeClaimSource string
  | CloudInitNoCloud string

datatype kubevirtv1_Volume = Volume (vol_Name: string) (vol_Source: VolumeSource)

datatype kubevirtv1_Network = Network (net_Name: string) (Multus_NetworkName: string)

datatype kubevirtv1_CPU = CPU_topology (Cores: "32 word") (Sockets: "32 word") (Threads: "32 word")

datatype kubevirtv1_Input = Input (in_Bus: string) (in_Type: string) (in_Name: string)

datatype kubevirtv1_Interface = Interface (if_Name: string) (Model: string) (Binding: string)

datatype kubevirtv1_Disk = Disk (disk_Name: string) (disk_Bus: string)

record WeightedPodAffinityTerm =
  Weight :: int
  TopologyKey :: string
  MatchLabels :: "string \<rightharpoonup> string"

record VirtualMachineInstanceTemplateSpec =
  t_Annotations :: "string \<rightharpoonup> string"
  t_Labels :: "string \<rightharpoonup> string"
  Hostname :: string
  Networks :: "kubevirtv1_Network list"
  t_Volumes :: "kubevirtv1_Volume list"
  Domain_CPU :: kubevirtv1_CPU
  Inputs :: "kubevirtv1_Input list"
  Domain_Interfaces :: "kubevirtv1_Interface list"
  Disks :: "kubevirtv1_Disk list"
  Resources_Requests :: "string \<rightharpoonup> Quantity"
  PodAntiAffinity_Preferred :: "WeightedPodAffinityTerm list"

record VirtualMachine =
  vm_Name :: string
  vm_Namespace :: string
  vm_Annotations :: "string \<rightharpoonup> string"
  vm_Labels :: "string \<rightharpoonup> string"
  Running :: "bool option"
  Template :: "VirtualMachineInstanceTemplateSpec option"

datatype ctrl_Result = Result (Requeue: bool)

section \<open>The environment\<close>

text \<open>
  What the collaborators answer in one pass: the Harvester client
  (\<^verbatim>\<open>hvScope.HarvesterClient\<close>), the management store (\<^verbatim>\<open>hvScope.ReconcilerClient\<close>)
  and the parts of the module's dependencies whose code is not in the repository
  (\<^verbatim>\<open>locutil.RandomID\<close>, the constant \<^verbatim>\<open>infrav1.MachineFinalizer\<close>,
  \<^verbatim>\<open>resource.ParseQuantity\<close> and the codecs of \<^verbatim>\<open>encoding/json\<close>).  A Go call
  returning \<^verbatim>\<open>(T, error)\<close> whose value is only read after \<^verbatim>\<open>err == nil\<close> answers with a
  sum; \<^verbatim>\<open>VirtualMachines.Get\<close>, whose two results are both inspected, answers with the
  pair.  No call of a pass is repeated with the same arguments after a write, so the
  answers are functions of the arguments.
\<close>

record world =
  VirtualMachines_Get :: "string \<Rightarrow> string \<Rightarrow> VirtualMachine option \<times> StatusReason option"
  VirtualMachines_Create :: "string \<Rightarrow> VirtualMachine \<Rightarrow> StatusReason + VirtualMachine"
  VirtualMachines_Delete :: "string \<Rightarrow> string \<Rightarrow> StatusReason option"
  VirtualMachineInstances_List :: "string \<Rightarrow> StatusReason + VirtualMachineInstance list"
  VirtualMachineImages_List :: "string \<Rightarrow> StatusReason + VirtualMachineImage list"
  KeyPairs_Get :: "string \<Rightarrow> string \<Rightarrow> StatusReason + KeyPair option"
  Secrets_Create :: "string \<Rightarrow> Secret \<Rightarrow> StatusReason option"
  Secrets_Delete :: "string \<Rightarrow> string \<Rightarrow> StatusReason option"
  ReconcilerClient_Get :: "string \<Rightarrow> string \<Rightarrow> StatusReason + Secret"
  RandomID :: string
  MachineFinalizer :: string
  ParseQuantity :: "string \<Rightarrow> Quantity option"
  json_decode :: "string \<Rightarrow> string + (string \<times> json) list"
  json_Marshal :: "(string \<rightharpoonup> json) \<Rightarrow> string + string"
  json_Marshal_claims :: "PersistentVolumeClaim list \<Rightarrow> string + string"

text \<open>The writes a pass issues against the platform, in order.\<close>

datatype call =
    SecretsCreate string Secret
  | VirtualMachinesCreate string VirtualMachine
  | SecretsDelete string string
  | VirtualMachinesDelete string string

section \<open>Library functions the controller calls\<close>

text \<open>\<^verbatim>\<open>strings.Split(s, sep)\<close> for a separator of one byte.\<close>

fun strings_Split :: "string \<Rightarrow> char \<Rightarrow> string list" where
  "strings_Split [] sep = [[]]"
| "strings_Split (c # cs) sep =
     (if c = sep then [] # strings_Split cs sep
      else (case strings_Split cs sep of
              [] \<Rightarrow> [[c]]
            | p # ps \<Rightarrow> (c # p) # ps))"

definition slices_Contains :: "string list \<Rightarrow> string \<Rightarrow> bool" where
  "slices_Contains s v = (v \<in> set s)"

text \<open>
  \<^verbatim>\<open>json.Unmarshal(data, &m)\<close> for a map \<open>m\<close>.  The decoder first validates the whole
  input; its scanner skips leading blanks and rejects, as a syntax error, an input that
  is empty or whose first byte cannot begin a JSON value.  What the decoder makes of
  the other inputs is the parameter \<open>json_decode\<close> of the environment.
\<close>

definition isSpace :: "char \<Rightarrow> bool" where
  "isSpace c = (c = CHR '' '' \<or> c = CHR 0x09 \<or> c = CHR 0x0D \<or> c = CHR 0x0A)"

definition beginsValue :: "char \<Rightarrow> bool" where
  "beginsValue c = (c \<in> set (CHR 0x22 # ''{[-0123456789tfn''))"

definition json_Unmarshal :: "world \<Rightarrow> string \<Rightarrow> error + (string \<times> json) list" where
  "json_Unmarshal w data =
     (case dropWhile isSpace data of
        [] \<Rightarrow> Inl (JsonError ''unexpected end of JSON input'')
      | c # cs \<Rightarrow>
          if beginsValue c then
            (case json_decode w data of
               Inl msg \<Rightarrow> Inl (JsonError msg)
             | Inr obj \<Rightarrow> Inr obj)
          else Inl (JsonError ''invalid character looking for beginning of value''))"

text \<open>\<^verbatim>\<open>controllerutil\<close>: the finalizer list of an object.\<close>

definition ContainsFinalizer :: "infrav1_HarvesterMachine \<Rightarrow> string \<Rightarrow> bool" where
  "ContainsFinalizer o' finalizer = (finalizer \<in> set (hm_Finalizers o'))"

definition AddFinalizer :: "infrav1_HarvesterMachine \<Rightarrow> string \<Rightarrow> infrav1_HarvesterMachine" where
  "AddFinalizer o' finalizer =
     (if finalizer \<in> set (hm_Finalizers o') then o'
      else o'\<lparr>hm_Finalizers := hm_Finalizers o' @ [finalizer]\<rparr>)"

text \<open>\<^verbatim>\<open>RemoveFinalizer\<close> drops every occurrence and reports whether the list changed.\<close>

definition RemoveFinalizer :: "infrav1_HarvesterMachine \<Rightarrow> string \<Rightarrow> infrav1_HarvesterMachine \<times> bool" where
  "RemoveFinalizer o' finalizer =
     (let f = filter (\<lambda>x. x \<noteq> finalizer) (hm_Finalizers o')
      in (o'\<lparr>hm_Finalizers := f\<rparr>, length (hm_Finalizers o') \<noteq> length f))"

text \<open>\<^verbatim>\<open>annotations.IsPaused\<close>: the cluster is paused or the object carries the annotation.\<close>

definition IsPaused :: "clusterv1_Cluster \<Rightarrow> infrav1_HarvesterMachine \<Rightarrow> bool" where
  "IsPaused cluster o' = (Paused cluster \<or> hm_Annotations o' ''cluster.x-k8s.io/paused'' \<noteq> None)"

text \<open>
  Modelled from the spec: \<^verbatim>\<open>locutil.Filter\<close> of the repository's package \<^verbatim>\<open>util\<close>, whose
  file is not among the sources.  The spec has it select the subset of the volumes
  naming an image, in order.
\<close>

definition Filter :: "'a list \<Rightarrow> ('a \<Rightarrow> bool) \<Rightarrow> 'a list" where
  "Filter xs p = filter p xs"

section \<open>The cloud-init merge\<close>

definition cloudInitListSections :: "string list" where
  "cloudInitListSections =
     [''package_update'', ''packages'', ''runcmd'', ''ssh_authorized_keys'', ''groups'',
      ''users'', ''write_files'', ''bootcmd'']"

text \<open>
  The type assertion \<^verbatim>\<open>resCloudInitObj[k].([]interface{})\<close> in its one-result form: it
  panics unless the operand holds a slice.  Indexing the map at a missing key yields the
  nil interface, which holds none.
\<close>

definition assertSlice :: "json option \<Rightarrow> fault + json list" where
  "assertSlice x = (case x of Some (JArray xs) \<Rightarrow> Inr xs | _ \<Rightarrow> Inl (Panic InterfaceConversion))"

text \<open>The inner loop of \<^verbatim>\<open>mergeCloudInitData\<close> over the entries of one decoded fragment.\<close>

fun mergeSections :: "(string \<rightharpoonup> json) \<Rightarrow> (string \<times> json) list \<Rightarrow> fault + (string \<rightharpoonup> json)" where
  "mergeSections res [] = Inr res"
| "mergeSections res ((k, v) # kvs) =
     (if slices_Contains cloudInitListSections k then
        (case assertSlice (res k) of
           Inl f \<Rightarrow> Inl f
         | Inr listSection \<Rightarrow> mergeSections (res(k \<mapsto> JArray (listSection @ [v]))) kvs)
      else mergeSections res kvs)"

text \<open>The outer loop over the fragments.\<close>

fun mergeFragments :: "world \<Rightarrow> (string \<rightharpoonup> json) \<Rightarrow> string list \<Rightarrow> fault + (string \<rightharpoonup> json)" where
  "mergeFragments w res [] = Inr res"
| "mergeFragments w res (cloudInit # rest) =
     (case json_Unmarshal w cloudInit of
        Inl err \<Rightarrow> Inl (Error err)
      | Inr cloudInitObj \<Rightarrow>
          (case mergeSections res cloudInitObj of
             Inl f \<Rightarrow> Inl f
           | Inr res' \<Rightarrow> mergeFragments w res' rest))"

definition mergeCloudInitData :: "world \<Rightarrow> string list \<Rightarrow> fault + string" where
  "mergeCloudInitData w cloudInits =
     (case mergeFragments w Map.empty cloudInits of
        Inl f \<Rightarrow> Inl f
      | Inr resCloudInitObj \<Rightarrow>
          (case json_Marshal w resCloudInitObj of
             Inl msg \<Rightarrow>
               Inl (Error (Wrap ''unable to marshall cloud-init, input cloud-init is malformed''
                      (JsonError msg)))
           | Inr resultCloudInit \<Rightarrow> Inr (''#cloud-config\<newline>'' @ resultCloudInit)))"

section \<open>Address extraction\<close>

definition errNoInstances :: "string \<Rightarrow> error" where
  "errNoInstances name = Errorf (''no VM instances found for VM '' @ name)"

text \<open>
  \<^verbatim>\<open>getIPAddressesFromVMI\<close>.  The two nested \<^verbatim>\<open>range\<close> loops append to
  \<^verbatim>\<open>ipAddresses\<close>; each is a left fold with the slice as its state.
\<close>

definition appendInterfaces :: "MachineAddress list \<Rightarrow> VirtualMachineInstance \<Rightarrow> MachineAddress list" where
  "appendInterfaces ipAddresses vmInstance =
     foldl (\<lambda>acc nic. acc @ [MachineAddress MachineExternalIP (IP nic)]) ipAddresses
       (Interfaces vmInstance)"

definition getIPAddressesFromVMI :: "world \<Rightarrow> VirtualMachine \<Rightarrow> error + MachineAddress list" where
  "getIPAddressesFromVMI w existingVM =
     (case VirtualMachineInstances_List w (vm_Namespace existingVM) of
        Inl r \<Rightarrow> Inl (StatusError r)
      | Inr items \<Rightarrow>
          if length items = 0 then Inl (errNoInstances (vm_Name existingVM))
          else Inr (foldl appendInterfaces [] items))"

section \<open>Image resolution\<close>

definition errMalformedImageName :: error where
  "errMalformedImageName =
     Errorf ''ImageName is HarvesterMachine is Malformed, expecting <NAMESPACE>/<NAME> format''"

definition errImageNotFound :: error where
  "errImageNotFound =
     Errorf ''impossible to find referenced VM image from imageName field in HarvesterMachine''"

text \<open>
  \<^verbatim>\<open>getImageFromHarvesterMachine\<close>.  \<^verbatim>\<open>imageVolumes[0]\<close> is read without a check of the
  length: on the empty slice the run-time panics.  The \<^verbatim>\<open>range\<close> loop returns the first
  image whose display name is the second segment, which is \<open>find\<close>.
\<close>

definition getImageFromHarvesterMachine :: "world \<Rightarrow> infrav1_Volume list \<Rightarrow> fault + VirtualMachineImage" where
  "getImageFromHarvesterMachine w imageVolumes =
     (case imageVolumes of
        [] \<Rightarrow> Inl (Panic IndexOutOfRange)
      | v0 # vs \<Rightarrow>
          (let vmImageNameParts = strings_Split (ImageName v0) CHR ''/'' in
           if length vmImageNameParts \<noteq> 2 then Inl (Error errMalformedImageName)
           else
             (case VirtualMachineImages_List w (vmImageNameParts ! 0) of
                Inl r \<Rightarrow> Inl (Error (StatusError r))
              | Inr items \<Rightarrow>
                  if length items = 0 then Inl (Error errImageNotFound)
                  else
                    (case find (\<lambda>img. DisplayName img = vmImageNameParts ! 1) items of
                       Some img \<Rightarrow> Inr img
                     | None \<Rightarrow> Inl (Error errImageNotFound)))))"

section \<open>The storage-claim annotation\<close>

text \<open>
  \<^verbatim>\<open>buildPVCAnnotationFromImageID\<close>.  \<^verbatim>\<open>*imageVolume.VolumeSize\<close> dereferences a pointer
  that may be nil.
\<close>

definition buildPVCAnnotationFromImageID ::
  "world \<Rightarrow> infrav1_Volume \<Rightarrow> string \<Rightarrow> string \<Rightarrow> VirtualMachineImage \<Rightarrow> fault + string" where
  "buildPVCAnnotationFromImageID w imageVolume pvcName pvcNamespace vmImage =
     (case VolumeSize imageVolume of
        None \<Rightarrow> Inl (Panic NilDereference)
      | Some volumeSize \<Rightarrow>
          (let pvc = \<lparr>pvc_Name = pvcName,
                      pvc_Namespace = pvcNamespace,
                      pvc_Annotations =
                        [''harvesterhci.io/imageId'' \<mapsto> img_Namespace vmImage @ ''/'' @ img_Name vmImage],
                      AccessModes = [''ReadWriteMany''],
                      Requests = [''storage'' \<mapsto> volumeSize],
                      VolumeMode = ''Block'',
                      StorageClassName = ''longhorn-'' @ img_Name vmImage\<rparr>
           in case json_Marshal_claims w [pvc] of
                Inl msg \<Rightarrow> Inl (Error (JsonError msg))
              | Inr pvcJsonString \<Rightarrow> Inr pvcJsonString))"

section \<open>Template synthesis\<close>

definition cloudInitBase :: string where
  "cloudInitBase =
     ''package_update: true\<newline>packages:\<newline>  - qemu-guest-agent\<newline>runcmd:\<newline>  - - systemctl\<newline>    - enable\<newline>    - --now\<newline>    - qemu-guest-agent.service''"

text \<open>\<^verbatim>\<open>getCloudInitData\<close>; \<^verbatim>\<open>*...Bootstrap.DataSecretName\<close> dereferences the reference.\<close>

definition getCloudInitData :: "world \<Rightarrow> Scope \<Rightarrow> fault + string" where
  "getCloudInitData w hvScope =
     (case DataSecretName (Machine hvScope) of
        None \<Rightarrow> Inl (Panic NilDereference)
      | Some name \<Rightarrow>
          (case ReconcilerClient_Get w (m_Namespace (Machine hvScope)) name of
             Inl r \<Rightarrow> Inl (Error (StatusError r))
           | Inr dataSecret \<Rightarrow>
               (case Data dataSecret ''value'' of
                  None \<Rightarrow>
                    Inl (Error (Errorf (''no userData key found in secret '' @
                           m_Namespace (Machine hvScope) @ ''/'' @ name)))
                | Some userData \<Rightarrow> Inr userData)))"

text \<open>
  The test \<^verbatim>\<open>sshKey == (&harvesterv1beta1.KeyPair{})\<close> compares the fetched pointer with
  the address of an object this very expression allocates.  Equality of pointers is
  identity and a new allocation is no earlier pointer, so the test is false whatever
  the fetched object holds.
\<close>

definition isFreshKeyPair :: "KeyPair \<Rightarrow> bool" where
  "isFreshKeyPair sshKey = False"

definition errNoKeypair :: error where
  "errNoKeypair = Errorf ''no keypair could be defined''"

text \<open>The struct literal \<^verbatim>\<open>buildVMTemplate\<close> returns (lines 513 to 621).\<close>

definition vmTemplateSpec ::
  "infrav1_HarvesterMachine \<Rightarrow> string \<Rightarrow> (string \<rightharpoonup> string) \<Rightarrow> KeyPair \<Rightarrow> Quantity \<Rightarrow>
   VirtualMachineInstanceTemplateSpec" where
  "vmTemplateSpec hm pvcName vmiLabels sshKey memory =
     \<lparr>t_Annotations =
        [''harvesterhci.io/diskNames'' \<mapsto> CHR ''['' # CHR 0x22 # pvcName @ [CHR 0x22, CHR '']''],
         ''harvesterhci.io/sshNames'' \<mapsto> CHR ''['' # CHR 0x22 # kp_Name sshKey @ [CHR 0x22, CHR '']'']],
      t_Labels = vmiLabels,
      Hostname = hm_Name hm,
      Networks = [Network ''nic-1'' ''vlan1''],
      t_Volumes =
        [Volume ''disk-0'' (PersistentVolumeClaimSource pvcName),
         Volume ''cloudinitdisk'' (CloudInitNoCloud (hm_Name hm @ ''-cloud-init''))],
      Domain_CPU =
        CPU_topology (word_of_int (CPU (hm_Spec hm))) (word_of_int (CPU (hm_Spec hm)))
          (word_of_int (CPU (hm_Spec hm))),
      Inputs = [Input ''usb'' ''tablet'' ''tablet''],
      Domain_Interfaces = [Interface ''nic-1'' ''virtio'' ''bridge''],
      Disks = [Disk ''disk-0'' ''virtio'', Disk ''cloudinitdisk'' ''virtio''],
      Resources_Requests = [''memory'' \<mapsto> memory],
      PodAntiAffinity_Preferred =
        [\<lparr>Weight = 1,
          TopologyKey = ''kubernetes.io/hostname'',
          MatchLabels = [''harvesterhci.io/vmNamePrefix'' \<mapsto> hm_Name hm]\<rparr>]\<rparr>"

text \<open>
  \<^verbatim>\<open>buildVMTemplate\<close>, with the writes it issued.  The \<^verbatim>\<open>Secrets.Get\<close> before the create
  only logs, so it is no branch here; lines 507 to 511 follow a return on \<^verbatim>\<open>err != nil\<close>
  and never run.  \<^verbatim>\<open>resource.MustParse\<close> panics on a quantity that does not parse.
\<close>

definition buildVMTemplate ::
  "world \<Rightarrow> Scope \<Rightarrow> string \<Rightarrow> (string \<rightharpoonup> string) \<Rightarrow>
   (fault + VirtualMachineInstanceTemplateSpec) \<times> call list" where
  "buildVMTemplate w hvScope pvcName vmiLabels =
     (let hm = HarvesterMachine hvScope;
          ns = TargetNamespace (hm_Spec hm);
          keyName = SSHKeyPair (hm_Spec hm)
      in case KeyPairs_Get w ns keyName of
           Inl r \<Rightarrow>
             (Inl (Error (Wrap ''error during getting keypair from Harvester'' (StatusError r))), [])
         | Inr None \<Rightarrow> (Inl (Error errNoKeypair), [])
         | Inr (Some sshKey) \<Rightarrow>
             if isFreshKeyPair sshKey then (Inl (Error errNoKeypair), [])
             else
               (let cloudInitSSHSection =
                      ''\<newline>ssh_authorized_keys:\<newline>  - '' @ PublicKey sshKey @ ''\<newline>''
                in case getCloudInitData w hvScope of
                     Inl f \<Rightarrow>
                       (Inl (wrapFault ''error during getting cloud init user data from Harvester'' f), [])
                   | Inr cloudInitUserData \<Rightarrow>
                       (case mergeCloudInitData w [cloudInitBase, cloudInitSSHSection, cloudInitUserData] of
                          Inl f \<Rightarrow>
                            (Inl (wrapFault ''error during merging cloud init user data from Harvester'' f), [])
                        | Inr finalCloudInit \<Rightarrow>
                            (let cloudInitSecret =
                                   \<lparr>sec_Name = hm_Name hm @ ''-cloud-init'',
                                    sec_Namespace = ns,
                                    Data = [''userData'' \<mapsto> finalCloudInit]\<rparr>
                             in case Secrets_Create w ns cloudInitSecret of
                                  Some r \<Rightarrow>
                                    (Inl (Error (Wrap ''unable to create cloud-init secret'' (StatusError r))),
                                     [SecretsCreate ns cloudInitSecret])
                                | None \<Rightarrow>
                                    (case ParseQuantity w (Memory (hm_Spec hm)) of
                                       None \<Rightarrow> (Inl (Panic MustParsePanic), [SecretsCreate ns cloudInitSecret])
                                     | Some memory \<Rightarrow>
                                         (Inr (vmTemplateSpec hm pvcName vmiLabels sshKey memory),
                                          [SecretsCreate ns cloudInitSecret]))))))"

section \<open>Creating the VM\<close>

definition hasVMIMageName :: "infrav1_Volume \<Rightarrow> bool" where
  "hasVMIMageName volume = (ImageName volume \<noteq> [])"

text \<open>
  \<^verbatim>\<open>vmiLabels := vmLabels\<close> copies a map header: both names denote one map, so the two
  entries written through \<^verbatim>\<open>vmiLabels\<close> are entries of \<^verbatim>\<open>vmLabels\<close> too.
\<close>

definition vmLabels :: "string \<Rightarrow> (string \<rightharpoonup> string)" where
  "vmLabels vmName =
     [''harvesterhci.io/creator'' \<mapsto> ''harvester'',
      ''harvesterhci.io/vmName'' \<mapsto> vmName,
      ''harvesterhci.io/vmNamePrefix'' \<mapsto> vmName]"

definition pvcNameOf :: "world \<Rightarrow> Scope \<Rightarrow> string" where
  "pvcNameOf w hvScope = hm_Name (HarvesterMachine hvScope) @ ''-disk-0-'' @ RandomID w"

text \<open>The object \<^verbatim>\<open>ubuntuVM\<close> handed to the create call.\<close>

definition ubuntuVM ::
  "Scope \<Rightarrow> string \<Rightarrow> VirtualMachineInstanceTemplateSpec \<Rightarrow> VirtualMachine" where
  "ubuntuVM hvScope pvcAnnotation vmTemplate =
     \<lparr>vm_Name = hm_Name (HarvesterMachine hvScope),
      vm_Namespace = TargetNamespace (hm_Spec (HarvesterMachine hvScope)),
      vm_Annotations =
        [''harvesterhci.io/volumeClaimTemplates'' \<mapsto> pvcAnnotation,
         ''networks.harvesterhci.io/ips'' \<mapsto> ''[]''],
      vm_Labels = vmLabels (hm_Name (HarvesterMachine hvScope)),
      Running = Some True,
      Template = Some vmTemplate\<rparr>"

text \<open>
  \<^verbatim>\<open>createVMFromHarvesterMachine\<close>, with the writes it issued.  \<^verbatim>\<open>&imageVolumes[0]\<close> is
  evaluated after image resolution returned, which has read the same element.
\<close>

definition createVMFromHarvesterMachine ::
  "world \<Rightarrow> Scope \<Rightarrow> (fault + VirtualMachine) \<times> call list" where
  "createVMFromHarvesterMachine w hvScope =
     (let hm = HarvesterMachine hvScope;
          ns = TargetNamespace (hm_Spec hm);
          vmiLabels = vmLabels (hm_Name hm);
          pvcName = pvcNameOf w hvScope;
          imageVolumes = Filter (Volumes (hm_Spec hm)) hasVMIMageName
      in case getImageFromHarvesterMachine w imageVolumes of
           Inl f \<Rightarrow> (Inl (wrapFault ''unable to find VM image reference in HarvesterMachine'' f), [])
         | Inr vmImage \<Rightarrow>
             (case imageVolumes of
                [] \<Rightarrow> (Inl (Panic IndexOutOfRange), [])
              | v0 # vs \<Rightarrow>
                  (case buildPVCAnnotationFromImageID w v0 pvcName ns vmImage of
                     Inl f \<Rightarrow> (Inl (wrapFault ''unable to generate PVC annotation on VM'' f), [])
                   | Inr pvcAnnotation \<Rightarrow>
                       (case buildVMTemplate w hvScope pvcName vmiLabels of
                          (Inl f, calls) \<Rightarrow> (Inl (wrapFault ''unable to build VM definition'' f), calls)
                        | (Inr vmTemplate, calls) \<Rightarrow>
                            (let vm = ubuntuVM hvScope pvcAnnotation vmTemplate
                             in case VirtualMachines_Create w ns vm of
                                  Inl r \<Rightarrow>
                                    (Inl (Error (StatusError r)), calls @ [VirtualMachinesCreate ns vm])
                                | Inr hvCreatedMachine \<Rightarrow>
                                    (Inr hvCreatedMachine, calls @ [VirtualMachinesCreate ns vm]))))))"

section \<open>The reconciler\<close>

text \<open>
  A pass returns its \<^verbatim>\<open>(ctrl.Result, error)\<close>, or panics; with it come the machine object
  as the pass left it (the pass writes finalizers and status through the pointer in the
  scope) and the writes issued against the platform.
\<close>

type_synonym pass =
  "(panic + ctrl_Result \<times> error option) \<times> infrav1_HarvesterMachine \<times> call list"

definition outcome :: "pass \<Rightarrow> panic + ctrl_Result \<times> error option" where
  "outcome p = fst p"

definition machineAfter :: "pass \<Rightarrow> infrav1_HarvesterMachine" where
  "machineAfter p = fst (snd p)"

definition callsOf :: "pass \<Rightarrow> call list" where
  "callsOf p = snd (snd p)"

text \<open>The branch of \<^verbatim>\<open>ReconcileNormal\<close> for a VM that exists (lines 258 to 274).\<close>

definition observeExistingVM :: "world \<Rightarrow> infrav1_HarvesterMachine \<Rightarrow> VirtualMachine \<Rightarrow> pass" where
  "observeExistingVM w hm existingVM =
     (case Running existingVM of
        None \<Rightarrow> (Inl NilDereference, hm, [])
      | Some running \<Rightarrow>
          if running then
            (case getIPAddressesFromVMI w existingVM of
               Inl err \<Rightarrow> (Inr (Result False, Some err), hm, [])
             | Inr ipAddresses \<Rightarrow>
                 (let st = (hm_Status hm)\<lparr>Addresses := ipAddresses\<rparr>;
                      st' = (if length ipAddresses > 0 then st\<lparr>Ready := True\<rparr> else st)
                  in (Inr (Result False, None), hm\<lparr>hm_Status := st'\<rparr>, [])))
          else (Inr (Result False, None), hm, []))"

text \<open>
  The branch for a VM that does not exist (lines 276 to 283): the error of the creation
  is logged, and the pass returns \<^verbatim>\<open>ctrl.Result{}, nil\<close>.
\<close>

definition createMissingVM :: "world \<Rightarrow> Scope \<Rightarrow> pass" where
  "createMissingVM w hvScope =
     (case createVMFromHarvesterMachine w hvScope of
        (Inl (Panic p), calls) \<Rightarrow> (Inl p, HarvesterMachine hvScope, calls)
      | (Inl (Error err), calls) \<Rightarrow> (Inr (Result False, None), HarvesterMachine hvScope, calls)
      | (Inr vm, calls) \<Rightarrow> (Inr (Result False, None), HarvesterMachine hvScope, calls))"

text \<open>
  Lines 250 to 258: the lookup failed with an error other than not-found, or it found a
  VM of the machine's name, or neither.
\<close>

definition vmLookupFailed :: "StatusReason option \<Rightarrow> bool" where
  "vmLookupFailed err = (case err of None \<Rightarrow> False | Some r \<Rightarrow> \<not> IsNotFound (StatusError r))"

definition vmExists :: "VirtualMachine option \<Rightarrow> infrav1_HarvesterMachine \<Rightarrow> bool" where
  "vmExists existingVM hm = (case existingVM of None \<Rightarrow> False | Some vm \<Rightarrow> vm_Name vm = hm_Name hm)"

definition ReconcileNormal :: "world \<Rightarrow> Scope \<Rightarrow> pass" where
  "ReconcileNormal w hvScope =
     (let hm = HarvesterMachine hvScope in
      if IsPaused (Cluster hvScope) hm then (Inr (Result False, None), hm, [])
      else if \<not> ContainsFinalizer hm (MachineFinalizer w) \<and> hm_DeletionTimestamp hm = None
        then (Inr (Result False, None), AddFinalizer hm (MachineFinalizer w), [])
      else if \<not> InfrastructureReady (Cluster hvScope) then (Inr (Result False, None), hm, [])
      else if DataSecretName (Machine hvScope) = None then (Inr (Result False, None), hm, [])
      else
        (case VirtualMachines_Get w (TargetNamespace (hm_Spec hm)) (hm_Name hm) of
           (existingVM, err) \<Rightarrow>
             if vmLookupFailed err then (Inr (Result False, map_option StatusError err), hm, [])
             else
               (case existingVM of
                  None \<Rightarrow> createMissingVM w hvScope
                | Some vm \<Rightarrow>
                    if vm_Name vm = hm_Name hm then observeExistingVM w hm vm
                    else createMissingVM w hvScope)))"

definition errRemoveFinalizer :: "world \<Rightarrow> infrav1_HarvesterMachine \<Rightarrow> error" where
  "errRemoveFinalizer w hm =
     Errorf (''unable to remove finalizer '' @ MachineFinalizer w @ '' from HarvesterMachine '' @
             hm_Namespace hm @ ''/'' @ hm_Name hm)"

text \<open>
  \<^verbatim>\<open>ReconcileDelete\<close>.  A failed delete is tolerated exactly when it reports not-found;
  \<open>deleteFailed\<close> is that test on the error of a delete call.
\<close>

definition deleteFailed :: "StatusReason option \<Rightarrow> bool" where
  "deleteFailed err = (case err of None \<Rightarrow> False | Some r \<Rightarrow> \<not> IsNotFound (StatusError r))"

definition ReconcileDelete :: "world \<Rightarrow> Scope \<Rightarrow> pass" where
  "ReconcileDelete w hvScope =
     (let hm = HarvesterMachine hvScope;
          ns = TargetNamespace (hm_Spec hm);
          c1 = SecretsDelete ns (hm_Name hm @ ''-cloud-init'');
          c2 = VirtualMachinesDelete ns (hm_Name hm);
          err1 = Secrets_Delete w ns (hm_Name hm @ ''-cloud-init'')
      in if deleteFailed err1 then (Inr (Result True, map_option StatusError err1), hm, [c1])
         else
           (let err2 = VirtualMachines_Delete w ns (hm_Name hm)
            in if deleteFailed err2 then (Inr (Result True, map_option StatusError err2), hm, [c1, c2])
               else
                 (case RemoveFinalizer hm (MachineFinalizer w) of
                    (hm', ok) \<Rightarrow>
                      if \<not> ok then (Inr (Result False, Some (errRemoveFinalizer w hm)), hm', [c1, c2])
                      else (Inr (Result False, None), hm', [c1, c2]))))"

section \<open>Conditions of a pass\<close>

text \<open>The four checks \<^verbatim>\<open>ReconcileNormal\<close> makes before it looks the VM up.\<close>

definition preconditionsHold :: "world \<Rightarrow> Scope \<Rightarrow> bool" where
  "preconditionsHold w hvScope =
     (\<not> IsPaused (Cluster hvScope) (HarvesterMachine hvScope) \<and>
      (ContainsFinalizer (HarvesterMachine hvScope) (MachineFinalizer w) \<or>
       hm_DeletionTimestamp (HarvesterMachine hvScope) \<noteq> None) \<and>
      InfrastructureReady (Cluster hvScope) \<and>
      DataSecretName (Machine hvScope) \<noteq> None)"

text \<open>
  The answer to the lookup of the VM by the machine's name in the target namespace.
\<close>

definition lookupVM :: "world \<Rightarrow> Scope \<Rightarrow> VirtualMachine option \<times> StatusReason option" where
  "lookupVM w hvScope =
     VirtualMachines_Get w (TargetNamespace (hm_Spec (HarvesterMachine hvScope)))
       (hm_Name (HarvesterMachine hvScope))"

text \<open>
  The one path of a pass that writes the status: the checks hold, the lookup found a VM
  of the machine's name, the VM is set to run, and address extraction returned \<open>ips\<close>.
\<close>

definition observes :: "world \<Rightarrow> Scope \<Rightarrow> MachineAddress list \<Rightarrow> bool" where
  "observes w hvScope ips =
     (preconditionsHold w hvScope \<and>
      (\<exists>vm err. lookupVM w hvScope = (Some vm, err) \<and> \<not> vmLookupFailed err \<and>
         vm_Name vm = hm_Name (HarvesterMachine hvScope) \<and> Running vm = Some True \<and>
         getIPAddressesFromVMI w vm = Inr ips))"

section \<open>Example objects and environments\<close>

text \<open>
  Concrete inputs on which the theorems below are instantiated: a platform that holds
  nothing (\<open>barePlatform\<close>, whose decoder knows three JSON fragments), a platform with
  an image, a key pair and bootstrap data (\<open>harvester\<close>), the same with a running VM
  (\<open>harvesterWithVM\<close>), and a machine \<open>node1\<close> with its variants.  On a failed
  \<^verbatim>\<open>Get\<close> the typed client returns the zero object beside the error, which is
  \<open>emptyVM\<close>.
\<close>

definition fragmentA :: string where
  \<open>fragmentA = ''{"packages":["a"]}''\<close>

definition fragmentB :: string where
  \<open>fragmentB = ''{"packages":["b"]}''\<close>

definition fragmentScalar :: string where
  \<open>fragmentScalar = ''{"packages":"x"}''\<close>

definition emptyVM :: VirtualMachine where
  "emptyVM = \<lparr>vm_Name = [], vm_Namespace = [], vm_Annotations = Map.empty, vm_Labels = Map.empty,
              Running = None, Template = None\<rparr>"

definition barePlatform :: world where
  "barePlatform =
     \<lparr>VirtualMachines_Get = (\<lambda>ns name. (Some emptyVM, Some NotFound)),
      VirtualMachines_Create = (\<lambda>ns vm. Inr vm),
      VirtualMachines_Delete = (\<lambda>ns name. Some NotFound),
      VirtualMachineInstances_List = (\<lambda>ns. Inr []),
      VirtualMachineImages_List = (\<lambda>ns. Inr []),
      KeyPairs_Get = (\<lambda>ns name. Inl NotFound),
      Secrets_Create = (\<lambda>ns secret. None),
      Secrets_Delete = (\<lambda>ns name. Some NotFound),
      ReconcilerClient_Get = (\<lambda>ns name. Inl NotFound),
      RandomID = ''x7k2q'',
      MachineFinalizer = ''harvestermachine.infrastructure.cluster.x-k8s.io'',
      ParseQuantity = Some,
      json_decode =
        (\<lambda>data. if data = fragmentA then Inr [(''packages'', JArray [JString ''a''])]
                else if data = fragmentB then Inr [(''packages'', JArray [JString ''b''])]
                else if data = fragmentScalar then Inr [(''packages'', JString ''x'')]
                else Inl ''cannot unmarshal''),
      json_Marshal = (\<lambda>obj. Inr ''{}''),
      json_Marshal_claims = (\<lambda>claims. Inr ''[{}]'')\<rparr>"

definition ubuntuImage :: VirtualMachineImage where
  "ubuntuImage = \<lparr>img_Namespace = ''ns1'', img_Name = ''image-k9wzv'', DisplayName = ''ubuntu''\<rparr>"

definition harvester :: world where
  "harvester =
     barePlatform
       \<lparr>VirtualMachineImages_List := (\<lambda>ns. if ns = ''ns1'' then Inr [ubuntuImage] else Inr []),
        KeyPairs_Get :=
          (\<lambda>ns name. if name = ''key1''
                      then Inr (Some \<lparr>kp_Name = ''key1'', PublicKey = ''ssh-ed25519 AAAAC3Nz''\<rparr>)
                      else Inl NotFound),
        ReconcilerClient_Get :=
          (\<lambda>ns name. Inr \<lparr>sec_Name = name, sec_Namespace = ns,
                            Data = [''value'' \<mapsto> ''#cloud-config\<newline>runcmd:\<newline>  - kubeadm join''] \<rparr>)\<rparr>"

definition runningVM :: VirtualMachine where
  "runningVM = emptyVM\<lparr>vm_Name := ''node-1'', vm_Namespace := ''default'', Running := Some True\<rparr>"

definition harvesterWithVM :: "VirtualMachineInstance list \<Rightarrow> world" where
  "harvesterWithVM items =
     harvester
       \<lparr>VirtualMachines_Get := (\<lambda>ns name. (Some runningVM, None)),
        VirtualMachineInstances_List := (\<lambda>ns. Inr items)\<rparr>"

definition instance1 :: VirtualMachineInstance where
  "instance1 = VirtualMachineInstance ''node-1'' [VMINetworkInterface ''10.0.0.5'']"

definition instanceNoInterface :: VirtualMachineInstance where
  "instanceNoInterface = VirtualMachineInstance ''node-1'' []"


definition node1 :: infrav1_HarvesterMachine where
  "node1 =
     \<lparr>hm_Name = ''node-1'', hm_Namespace = ''capi'', hm_Annotations = Map.empty,
      hm_Finalizers = [''harvestermachine.infrastructure.cluster.x-k8s.io''],
      hm_DeletionTimestamp = None,
      hm_Spec = \<lparr>TargetNamespace = ''default'', CPU = 2, Memory = ''4Gi'',
                  Volumes = [\<lparr>ImageName = ''ns1/ubuntu'', VolumeSize = Some ''40Gi''\<rparr>],
                  SSHKeyPair = ''key1''\<rparr>,
      hm_Status = \<lparr>Ready = False, Addresses = []\<rparr>\<rparr>"

definition node1BadImage :: infrav1_HarvesterMachine where
  "node1BadImage =
     node1\<lparr>hm_Spec := (hm_Spec node1)\<lparr>Volumes := [\<lparr>ImageName = ''badref'', VolumeSize = Some ''40Gi''\<rparr>]\<rparr>\<rparr>"

definition node1Ready :: infrav1_HarvesterMachine where
  "node1Ready =
     node1\<lparr>hm_Status := \<lparr>Ready = True, Addresses = [MachineAddress MachineExternalIP ''10.0.0.5'']\<rparr>\<rparr>"

definition scopeOf :: "infrav1_HarvesterMachine \<Rightarrow> Scope" where
  "scopeOf hm =
     \<lparr>Cluster = \<lparr>Paused = False, InfrastructureReady = True\<rparr>,
      Machine = \<lparr>m_Namespace = ''capi'', DataSecretName = Some ''node-1-bootstrap''\<rparr>,
      HarvesterMachine = hm\<rparr>"

section \<open>The cloud-init merge: what it returns\<close>

text \<open>
  The accumulator \<^verbatim>\<open>resCloudInitObj\<close> starts empty and is only written after the type
  assertion on its own entry has succeeded.  So the first entry of a fragment whose key
  is one of the list sections makes the merge panic, and a merge that returns has stored
  nothing.
\<close>

lemma assertSlice_absent: "\<forall>xs. x \<noteq> Some (JArray xs) \<Longrightarrow> assertSlice x = Inl (Panic InterfaceConversion)"
  by (auto simp: assertSlice_def split: option.splits json.splits)

lemma mergeSections_panics:
  assumes "\<exists>kv\<in>set obj. fst kv \<in> set cloudInitListSections"
      and "\<forall>k\<in>set cloudInitListSections. \<forall>xs. res k \<noteq> Some (JArray xs)"
  shows "mergeSections res obj = Inl (Panic InterfaceConversion)"
  using assms
proof (induction obj)
  case Nil
  then show ?case by simp
next
  case (Cons kv obj)
  obtain k v where kv: "kv = (k, v)" by (cases kv)
  show ?case
  proof (cases "k \<in> set cloudInitListSections")
    case True
    with Cons.prems(2) have "assertSlice (res k) = Inl (Panic InterfaceConversion)"
      by (intro assertSlice_absent) blast
    with True kv show ?thesis by (simp add: slices_Contains_def)
  next
    case False
    with Cons.prems(1) kv have "\<exists>kv\<in>set obj. fst kv \<in> set cloudInitListSections" by auto
    with Cons.IH Cons.prems(2) have "mergeSections res obj = Inl (Panic InterfaceConversion)" by blast
    with False kv show ?thesis by (simp add: slices_Contains_def)
  qed
qed

lemma mergeSections_skip:
  assumes "\<forall>kv\<in>set obj. fst kv \<notin> set cloudInitListSections"
  shows "mergeSections res obj = Inr res"
  using assms by (induction obj) (auto simp: slices_Contains_def)

lemma mergeSections_empty_cases:
  "mergeSections Map.empty obj = Inl (Panic InterfaceConversion) \<or> mergeSections Map.empty obj = Inr Map.empty"
proof (cases "\<exists>kv\<in>set obj. fst kv \<in> set cloudInitListSections")
  case True
  then show ?thesis by (simp add: mergeSections_panics)
next
  case False
  then show ?thesis by (simp add: mergeSections_skip)
qed

lemma mergeFragments_empty:
  "mergeFragments w Map.empty cs = Inr res \<Longrightarrow> res = Map.empty"
proof (induction cs)
  case Nil
  then show ?case by simp
next
  case (Cons c cs)
  from Cons.prems obtain obj where obj: "json_Unmarshal w c = Inr obj"
    by (cases "json_Unmarshal w c") auto
  from mergeSections_empty_cases[of obj] show ?case
  proof
    assume "mergeSections Map.empty obj = Inl (Panic InterfaceConversion)"
    with Cons.prems obj show ?thesis by simp
  next
    assume "mergeSections Map.empty obj = Inr Map.empty"
    with Cons.prems obj have "mergeFragments w Map.empty cs = Inr res" by simp
    then show ?thesis by (rule Cons.IH)
  qed
qed

lemma mergeFragments_first_fails:
  "json_Unmarshal w c = Inl e \<Longrightarrow> mergeFragments w res (c # cs) = Inl (Error e)"
  by simp

lemma mergeCloudInitData_first_fails:
  "json_Unmarshal w c = Inl e \<Longrightarrow> mergeCloudInitData w (c # cs) = Inl (Error e)"
  by (simp add: mergeCloudInitData_def)

lemma merge_list_section_panics:
  assumes "json_Unmarshal w c = Inr obj" and "(k, v) \<in> set obj" and "k \<in> set cloudInitListSections"
  shows "mergeCloudInitData w (c # cs) = Inl (Panic InterfaceConversion)"
proof -
  have "mergeSections Map.empty obj = Inl (Panic InterfaceConversion)"
    using assms(2,3) by (intro mergeSections_panics) force+
  with assms(1) show ?thesis by (simp add: mergeCloudInitData_def)
qed

text \<open>A merge that returns a document returns the header and the encoding of the empty map.\<close>

lemma mergeCloudInitData_result:
  assumes "mergeCloudInitData w cs = Inr doc"
  shows "\<exists>b. json_Marshal w Map.empty = Inr b \<and> doc = ''#cloud-config\<newline>'' @ b"
  using assms mergeFragments_empty[of w cs]
  by (auto simp: mergeCloudInitData_def split: sum.splits)

text \<open>The fragment \<open>fragmentA\<close> begins with a brace, so the decoder is asked about it.\<close>

lemma json_Unmarshal_fragmentA: "json_Unmarshal w fragmentA = (case json_decode w fragmentA of Inl msg \<Rightarrow> Inl (JsonError msg) | Inr obj \<Rightarrow> Inr obj)"
  by (simp add: json_Unmarshal_def fragmentA_def isSpace_def beginsValue_def)

text \<open>
  The base document of \<^verbatim>\<open>buildVMTemplate\<close> is YAML: its first byte is the letter p, which
  begins no JSON value.
\<close>

lemma json_Unmarshal_cloudInitBase:
  "json_Unmarshal w cloudInitBase = Inl (JsonError ''invalid character looking for beginning of value'')"
  by (simp add: json_Unmarshal_def cloudInitBase_def isSpace_def beginsValue_def)

lemma merge_base_fails:
  "mergeCloudInitData w (cloudInitBase # cs) =
     Inl (Error (JsonError ''invalid character looking for beginning of value''))"
  by (simp add: mergeCloudInitData_first_fails json_Unmarshal_cloudInitBase)

text \<open>
  Claim C1.  The spec has the merge of the fragments \<^verbatim>\<open>{"packages":["a"]}\<close> and
  \<^verbatim>\<open>{"packages":["b"]}\<close> yield a document whose \<^verbatim>\<open>packages\<close> is the list of a and b.
  The code does not return on this input: whenever the decoder reads the first fragment
  as the object it denotes, the type assertion of line 638 is applied to the missing entry
  \<^verbatim>\<open>packages\<close> of the empty accumulator, and the merge panics.
\<close>

theorem merge_packages_panics:
  assumes "json_decode w fragmentA = Inr [(''packages'', JArray [JString ''a''])]"
  shows "mergeCloudInitData w [fragmentA, fragmentB] = Inl (Panic InterfaceConversion)"
proof -
  have "json_Unmarshal w fragmentA = Inr [(''packages'', JArray [JString ''a''])]"
    using assms by (simp add: json_Unmarshal_fragmentA)
  moreover have "(''packages'', JArray [JString ''a'']) \<in> set [(''packages'', JArray [JString ''a''])]"
    by simp
  moreover have "''packages'' \<in> set cloudInitListSections"
    by (simp add: cloudInitListSections_def)
  ultimately show ?thesis
    by (rule merge_list_section_panics)
qed

text \<open>The decoder of \<open>barePlatform\<close> reads the fragment so, and the merge panics there.\<close>

theorem merge_packages_panics_witness:
  "json_decode barePlatform fragmentA = Inr [(''packages'', JArray [JString ''a''])] \<and>
   mergeCloudInitData barePlatform [fragmentA, fragmentB] = Inl (Panic InterfaceConversion)"
proof -
  have h: "json_decode barePlatform fragmentA = Inr [(''packages'', JArray [JString ''a''])]"
    by (simp add: barePlatform_def)
  from h merge_packages_panics[OF h] show ?thesis by simp
qed

text \<open>
  Claim C2.  The spec has the merge return an error when the accumulator entry of a list
  section holds a value that is no list.  In the code the type assertion has its
  one-result form and is not guarded: at every accumulator whose entry for a list-section
  key holds no list (a scalar, or nothing), the loop panics on an entry with that key,
  whatever the entry's value is.  The merge returns no error of its own for it.
\<close>

theorem mergeSections_non_list_panics:
  assumes "k \<in> set cloudInitListSections" and "\<forall>xs. res k \<noteq> Some (JArray xs)"
  shows "mergeSections res ((k, v) # kvs) = Inl (Panic InterfaceConversion)"
  using assms by (simp add: slices_Contains_def assertSlice_absent)

text \<open>An accumulator that holds a string under \<^verbatim>\<open>packages\<close>, and a fragment with a package list.\<close>

theorem mergeSections_non_list_panics_witness:
  "mergeSections [''packages'' \<mapsto> JString ''x''] [(''packages'', JArray [JString ''b''])] =
     Inl (Panic InterfaceConversion)"
  using mergeSections_non_list_panics[of "''packages''" "[''packages'' \<mapsto> JString ''x'']" "JArray [JString ''b'']" "[]"]
  by (simp add: cloudInitListSections_def)

text \<open>
  The same through the whole merge: a fragment with a scalar \<^verbatim>\<open>packages\<close> followed by one
  with a list.  The panic comes with the first fragment already.
\<close>

lemma merge_scalar_then_list:
  "mergeCloudInitData barePlatform [fragmentScalar, fragmentB] = Inl (Panic InterfaceConversion)"
  by (simp add: mergeCloudInitData_def json_Unmarshal_def barePlatform_def fragmentScalar_def fragmentA_def fragmentB_def
       isSpace_def beginsValue_def slices_Contains_def cloudInitListSections_def assertSlice_def)

section \<open>Image resolution\<close>

text \<open>\<^verbatim>\<open>strings.Split\<close> yields one segment more than the text has separators.\<close>

lemma strings_Split_nonempty: "strings_Split s c \<noteq> []"
  by (induction s) (auto split: list.splits)

lemma strings_Split_length: "length (strings_Split s c) = Suc (count_list s c)"
  by (induction s) (auto split: list.splits simp: strings_Split_nonempty)

lemma find_Some_set: "find P xs = Some x \<Longrightarrow> x \<in> set xs \<and> P x"
  by (induction xs) (auto split: if_splits)

text \<open>
  Claim C6.  On a non-empty list of image-naming volumes, image resolution returns the
  malformed-reference error exactly when the first volume's reference does not split at
  the slashes into two segments.  When it does and the platform lists the images of the
  namespace named by the first segment, the result is the not-found error if the list is
  empty or no display name equals the second segment (equality of the texts, so case
  matters), and otherwise an image of the list whose display name is that segment.
\<close>

theorem getImageFromHarvesterMachine_resolution:
  fixes w :: world and v :: infrav1_Volume and vs :: "infrav1_Volume list"
  defines "parts \<equiv> strings_Split (ImageName v) CHR ''/''"
  shows "((getImageFromHarvesterMachine w (v # vs) = Inl (Error errMalformedImageName)) =
            (length parts \<noteq> 2)) \<and>
         (length parts = 2 \<longrightarrow>
            (\<forall>items. VirtualMachineImages_List w (parts ! 0) = Inr items \<longrightarrow>
               ((items = [] \<or> (\<forall>i\<in>set items. DisplayName i \<noteq> parts ! 1)) \<longrightarrow>
                  getImageFromHarvesterMachine w (v # vs) = Inl (Error errImageNotFound)) \<and>
               ((\<exists>i\<in>set items. DisplayName i = parts ! 1) \<longrightarrow>
                  (\<exists>img\<in>set items. getImageFromHarvesterMachine w (v # vs) = Inr img \<and>
                                     DisplayName img = parts ! 1))))"
proof -
  have neq: "errImageNotFound \<noteq> errMalformedImageName"
    by (simp add: errImageNotFound_def errMalformedImageName_def)
  have A: "(getImageFromHarvesterMachine w (v # vs) = Inl (Error errMalformedImageName)) = (length parts \<noteq> 2)"
    using neq
    by (auto simp: getImageFromHarvesterMachine_def parts_def Let_def errMalformedImageName_def
             split: sum.splits option.splits)
  have B: "getImageFromHarvesterMachine w (v # vs) = Inl (Error errImageNotFound)"
    if "length parts = 2" "VirtualMachineImages_List w (parts ! 0) = Inr items"
       "items = [] \<or> (\<forall>i\<in>set items. DisplayName i \<noteq> parts ! 1)" for items
  proof -
    have "find (\<lambda>img. DisplayName img = parts ! 1) items = None"
      using that(3) by (auto simp: find_None_iff)
    with that(1,2) show ?thesis
      by (simp add: getImageFromHarvesterMachine_def parts_def[symmetric] Let_def)
  qed
  have C: "\<exists>img\<in>set items. getImageFromHarvesterMachine w (v # vs) = Inr img \<and> DisplayName img = parts ! 1"
    if "length parts = 2" "VirtualMachineImages_List w (parts ! 0) = Inr items"
       "\<exists>i\<in>set items. DisplayName i = parts ! 1" for items
  proof -
    from that(3) obtain img where f: "find (\<lambda>img. DisplayName img = parts ! 1) items = Some img"
      by (cases "find (\<lambda>img. DisplayName img = parts ! 1) items") (auto simp: find_None_iff)
    from that(3) have "items \<noteq> []" by auto
    with that(1,2) f have "getImageFromHarvesterMachine w (v # vs) = Inr img"
      by (simp add: getImageFromHarvesterMachine_def parts_def[symmetric] Let_def)
    with find_Some_set[OF f] show ?thesis by blast
  qed
  from A B C show ?thesis by blast
qed

text \<open>
  The examples of the spec on the platform \<open>harvester\<close>, whose namespace \<^verbatim>\<open>ns1\<close> lists one
  image of display name \<^verbatim>\<open>ubuntu\<close>; a reference differing in case or in namespace is not
  found.
\<close>

theorem getImageFromHarvesterMachine_resolution_witness:
  "getImageFromHarvesterMachine harvester [\<lparr>ImageName = ''ns1/ubuntu'', VolumeSize = None\<rparr>] = Inr ubuntuImage \<and>
   getImageFromHarvesterMachine harvester [\<lparr>ImageName = ''badref'', VolumeSize = None\<rparr>] =
     Inl (Error errMalformedImageName) \<and>
   getImageFromHarvesterMachine harvester [\<lparr>ImageName = ''ns1/missing'', VolumeSize = None\<rparr>] =
     Inl (Error errImageNotFound) \<and>
   getImageFromHarvesterMachine harvester [\<lparr>ImageName = ''ns1/Ubuntu'', VolumeSize = None\<rparr>] =
     Inl (Error errImageNotFound) \<and>
   getImageFromHarvesterMachine harvester [\<lparr>ImageName = ''ns2/ubuntu'', VolumeSize = None\<rparr>] =
     Inl (Error errImageNotFound)"
proof -
  have l: "VirtualMachineImages_List harvester ns = (if ns = ''ns1'' then Inr [ubuntuImage] else Inr [])" for ns
    by (simp add: harvester_def)
  have d: "DisplayName ubuntuImage = ''ubuntu''" by (simp add: ubuntuImage_def)
  from getImageFromHarvesterMachine_resolution[of harvester "\<lparr>ImageName = ''ns1/ubuntu'', VolumeSize = None\<rparr>" "[]"]
  have 1: "getImageFromHarvesterMachine harvester [\<lparr>ImageName = ''ns1/ubuntu'', VolumeSize = None\<rparr>] = Inr ubuntuImage"
    by (simp add: l d)
  from getImageFromHarvesterMachine_resolution[of harvester "\<lparr>ImageName = ''badref'', VolumeSize = None\<rparr>" "[]"]
  have 2: "getImageFromHarvesterMachine harvester [\<lparr>ImageName = ''badref'', VolumeSize = None\<rparr>] =
     Inl (Error errMalformedImageName)"
    by simp
  from getImageFromHarvesterMachine_resolution[of harvester "\<lparr>ImageName = ''ns1/missing'', VolumeSize = None\<rparr>" "[]"]
  have 3: "getImageFromHarvesterMachine harvester [\<lparr>ImageName = ''ns1/missing'', VolumeSize = None\<rparr>] =
     Inl (Error errImageNotFound)"
    by (simp add: l d)
  from getImageFromHarvesterMachine_resolution[of harvester "\<lparr>ImageName = ''ns1/Ubuntu'', VolumeSize = None\<rparr>" "[]"]
  have 4: "getImageFromHarvesterMachine harvester [\<lparr>ImageName = ''ns1/Ubuntu'', VolumeSize = None\<rparr>] =
     Inl (Error errImageNotFound)"
    by (simp add: l d)
  from getImageFromHarvesterMachine_resolution[of harvester "\<lparr>ImageName = ''ns2/ubuntu'', VolumeSize = None\<rparr>" "[]"]
  have 5: "getImageFromHarvesterMachine harvester [\<lparr>ImageName = ''ns2/ubuntu'', VolumeSize = None\<rparr>] =
     Inl (Error errImageNotFound)"
    by (simp add: l d)
  from 1 2 3 4 5 show ?thesis by simp
qed

section \<open>Address extraction and the observing pass\<close>

lemma foldl_append_map: "foldl (\<lambda>acc x. acc @ [f x]) acc xs = acc @ map f xs"
  by (induction xs arbitrary: acc) auto

lemma appendInterfaces_eq:
  "appendInterfaces acc vmi = acc @ map (\<lambda>nic. MachineAddress MachineExternalIP (IP nic)) (Interfaces vmi)"
  by (simp add: appendInterfaces_def foldl_append_map)

lemma foldl_appendInterfaces:
  "foldl appendInterfaces acc items =
     acc @ concat (map (\<lambda>vmi. map (\<lambda>nic. MachineAddress MachineExternalIP (IP nic)) (Interfaces vmi)) items)"
  by (induction items arbitrary: acc) (auto simp: appendInterfaces_eq)

text \<open>Once its four checks hold, a pass is decided by the lookup.\<close>

lemma ReconcileNormal_lookup:
  assumes "preconditionsHold w s"
  shows "ReconcileNormal w s =
     (case lookupVM w s of
        (existingVM, err) \<Rightarrow>
          if vmLookupFailed err then (Inr (Result False, map_option StatusError err), HarvesterMachine s, [])
          else if vmExists existingVM (HarvesterMachine s)
            then observeExistingVM w (HarvesterMachine s) (the existingVM)
          else createMissingVM w s)"
  using assms
  by (auto simp: preconditionsHold_def ReconcileNormal_def lookupVM_def vmExists_def Let_def
           split: prod.splits option.splits)

lemma observeExistingVM_running:
  assumes "Running vm = Some True" and "getIPAddressesFromVMI w vm = Inr ips"
  shows "observeExistingVM w hm vm =
           (Inr (Result False, None),
            hm\<lparr>hm_Status := (hm_Status hm)\<lparr>Addresses := ips, Ready := (ips \<noteq> [] \<or> Ready (hm_Status hm))\<rparr>\<rparr>, [])"
  using assms by (cases "ips = []") (simp_all add: observeExistingVM_def Let_def)

text \<open>
  Claim C7.  Address extraction fails with the no-instances error exactly when the
  platform lists no instance.  When it lists some, the result has one entry for every
  interface of every listed instance, tagged as external IP and carrying the interface's
  IP, in the order listed and with repetitions kept.  And a pass whose checks hold, whose
  lookup finds a VM of the machine's name that is set to run, and whose extraction
  returns at least one address, returns without error and leaves the status ready with
  exactly those addresses.
\<close>

theorem address_extraction:
  "((getIPAddressesFromVMI w vm = Inl (errNoInstances (vm_Name vm))) =
      (VirtualMachineInstances_List w (vm_Namespace vm) = Inr [])) \<and>
   (\<forall>items. VirtualMachineInstances_List w (vm_Namespace vm) = Inr items \<longrightarrow> items \<noteq> [] \<longrightarrow>
      getIPAddressesFromVMI w vm =
        Inr (concat (map (\<lambda>vmi. map (\<lambda>nic. MachineAddress MachineExternalIP (IP nic)) (Interfaces vmi)) items))) \<and>
   (\<forall>ips err. preconditionsHold w s \<longrightarrow> lookupVM w s = (Some vm, err) \<longrightarrow> \<not> vmLookupFailed err \<longrightarrow>
      vm_Name vm = hm_Name (HarvesterMachine s) \<longrightarrow> Running vm = Some True \<longrightarrow>
      getIPAddressesFromVMI w vm = Inr ips \<longrightarrow> ips \<noteq> [] \<longrightarrow>
      ReconcileNormal w s =
        (Inr (Result False, None),
         (HarvesterMachine s)\<lparr>hm_Status := (hm_Status (HarvesterMachine s))\<lparr>Addresses := ips, Ready := True\<rparr>\<rparr>,
         []))"
proof -
  have A: "(getIPAddressesFromVMI w vm = Inl (errNoInstances (vm_Name vm))) =
      (VirtualMachineInstances_List w (vm_Namespace vm) = Inr [])"
    by (auto simp: getIPAddressesFromVMI_def errNoInstances_def split: sum.splits)
  have B: "getIPAddressesFromVMI w vm =
        Inr (concat (map (\<lambda>vmi. map (\<lambda>nic. MachineAddress MachineExternalIP (IP nic)) (Interfaces vmi)) items))"
    if "VirtualMachineInstances_List w (vm_Namespace vm) = Inr items" "items \<noteq> []" for items
    using that by (simp add: getIPAddressesFromVMI_def foldl_appendInterfaces)
  have C: "ReconcileNormal w s =
        (Inr (Result False, None),
         (HarvesterMachine s)\<lparr>hm_Status := (hm_Status (HarvesterMachine s))\<lparr>Addresses := ips, Ready := True\<rparr>\<rparr>,
         [])"
    if "preconditionsHold w s" "lookupVM w s = (Some vm, err)" "\<not> vmLookupFailed err"
       "vm_Name vm = hm_Name (HarvesterMachine s)" "Running vm = Some True"
       "getIPAddressesFromVMI w vm = Inr ips" "ips \<noteq> []" for ips err
    using that by (simp add: ReconcileNormal_lookup vmExists_def observeExistingVM_running)
  from A B C show ?thesis by blast
qed

lemma preconditionsHold_harvesterWithVM: "preconditionsHold (harvesterWithVM items) (scopeOf node1)"
  by (simp add: preconditionsHold_def scopeOf_def IsPaused_def ContainsFinalizer_def barePlatform_def
        harvesterWithVM_def harvester_def node1_def)

lemma lookupVM_harvesterWithVM: "lookupVM (harvesterWithVM items) s = (Some runningVM, None)"
  by (simp add: lookupVM_def harvesterWithVM_def)

text \<open>One instance reporting \<^verbatim>\<open>10.0.0.5\<close>; and no instance at all.\<close>

theorem address_extraction_witness:
  "getIPAddressesFromVMI (harvesterWithVM [instance1]) runningVM =
     Inr [MachineAddress MachineExternalIP ''10.0.0.5''] \<and>
   ReconcileNormal (harvesterWithVM [instance1]) (scopeOf node1) =
     (Inr (Result False, None),
      node1\<lparr>hm_Status := \<lparr>Ready = True, Addresses = [MachineAddress MachineExternalIP ''10.0.0.5'']\<rparr>\<rparr>, []) \<and>
   getIPAddressesFromVMI (harvesterWithVM []) runningVM = Inl (errNoInstances ''node-1'')"
proof -
  have l: "VirtualMachineInstances_List (harvesterWithVM items) ns = Inr items" for items ns
    by (simp add: harvesterWithVM_def)
  have ips: "getIPAddressesFromVMI (harvesterWithVM [instance1]) runningVM =
     Inr [MachineAddress MachineExternalIP ''10.0.0.5'']"
    using address_extraction[of "harvesterWithVM [instance1]" runningVM "scopeOf node1"] l
    by (simp add: instance1_def)
  have none: "getIPAddressesFromVMI (harvesterWithVM []) runningVM = Inl (errNoInstances ''node-1'')"
    using address_extraction[of "harvesterWithVM []" runningVM "scopeOf node1"] l
    by (simp add: runningVM_def)
  have pass: "ReconcileNormal (harvesterWithVM [instance1]) (scopeOf node1) =
     (Inr (Result False, None),
      node1\<lparr>hm_Status := \<lparr>Ready = True, Addresses = [MachineAddress MachineExternalIP ''10.0.0.5'']\<rparr>\<rparr>, [])"
    using address_extraction[of "harvesterWithVM [instance1]" runningVM "scopeOf node1"]
      preconditionsHold_harvesterWithVM[of "[instance1]"] lookupVM_harvesterWithVM[of "[instance1]" "scopeOf node1"] ips
    by (simp add: vmLookupFailed_def runningVM_def scopeOf_def node1_def)
  from ips pass none show ?thesis by simp
qed

section \<open>Creating the VM\<close>

text \<open>
  Claim C10.  When no volume of the machine names an image, the filtered list is empty
  and \<^verbatim>\<open>imageVolumes[0]\<close> is out of range: creation panics, issues no write, and returns
  no error value.
\<close>

theorem createVM_without_image_volume_panics:
  assumes "\<forall>v\<in>set (Volumes (hm_Spec (HarvesterMachine s))). ImageName v = []"
  shows "createVMFromHarvesterMachine w s = (Inl (Panic IndexOutOfRange), [])"
proof -
  have "Filter (Volumes (hm_Spec (HarvesterMachine s))) hasVMIMageName = []"
    using assms by (simp add: Filter_def hasVMIMageName_def)
  then show ?thesis
    by (simp add: createVMFromHarvesterMachine_def getImageFromHarvesterMachine_def Let_def)
qed

text \<open>A machine whose only volume has an empty image name.\<close>

theorem createVM_without_image_volume_panics_witness:
  "createVMFromHarvesterMachine harvester
     (scopeOf (node1\<lparr>hm_Spec := (hm_Spec node1)\<lparr>Volumes := [\<lparr>ImageName = [], VolumeSize = Some ''40Gi''\<rparr>]\<rparr>\<rparr>)) =
   (Inl (Panic IndexOutOfRange), [])"
  by (rule createVM_without_image_volume_panics) (simp add: scopeOf_def)

text \<open>What the struct literal of the template holds, whatever its arguments.\<close>

lemma vmTemplateSpec_contents:
  "Volume ''disk-0'' (PersistentVolumeClaimSource pvcName) \<in> set (t_Volumes (vmTemplateSpec hm pvcName labels sshKey memory)) \<and>
   Volume ''cloudinitdisk'' (CloudInitNoCloud (hm_Name hm @ ''-cloud-init'')) \<in>
     set (t_Volumes (vmTemplateSpec hm pvcName labels sshKey memory)) \<and>
   map (\<lambda>t. MatchLabels t ''harvesterhci.io/vmNamePrefix'')
     (PodAntiAffinity_Preferred (vmTemplateSpec hm pvcName labels sshKey memory)) = [Some (hm_Name hm)]"
  by (simp add: vmTemplateSpec_def)

text \<open>
  Template synthesis never gets past the merge: its first fragment is \<open>cloudInitBase\<close>.
  So it returns no template and creates no secret, and creation issues no write.
\<close>

lemma buildVMTemplate_no_template: "\<exists>f. buildVMTemplate w s pvcName labels = (Inl f, [])"
  by (simp add: buildVMTemplate_def Let_def merge_base_fails isFreshKeyPair_def
           split: sum.splits option.splits)

lemma createVM_no_calls: "\<exists>f. createVMFromHarvesterMachine w s = (Inl f, [])"
proof -
  obtain f where f: "buildVMTemplate w s (pvcNameOf w s) (vmLabels (hm_Name (HarvesterMachine s))) = (Inl f, [])"
    using buildVMTemplate_no_template by blast
  then show ?thesis
    by (simp add: createVMFromHarvesterMachine_def Let_def split: sum.splits list.splits)
qed

lemma getCloudInitData_no_panic:
  "DataSecretName (Machine s) \<noteq> None \<Longrightarrow> \<exists>r. getCloudInitData w s = Inl (Error r) \<or> (\<exists>d. getCloudInitData w s = Inr d)"
  by (auto simp: getCloudInitData_def split: option.splits sum.splits)

text \<open>
  The part of the check of the key pair that works: a failed \<^verbatim>\<open>Get\<close> is wrapped and
  returned, and a nil pointer gives the error of line 454; neither writes anything.
\<close>

lemma buildVMTemplate_keypair_absent:
  fixes w :: world and s :: Scope
  defines "fetched \<equiv> KeyPairs_Get w (TargetNamespace (hm_Spec (HarvesterMachine s))) (SSHKeyPair (hm_Spec (HarvesterMachine s)))"
  shows "(\<forall>r. fetched = Inl r \<longrightarrow>
            buildVMTemplate w s pvcName labels =
              (Inl (Error (Wrap ''error during getting keypair from Harvester'' (StatusError r))), [])) \<and>
         (fetched = Inr None \<longrightarrow> buildVMTemplate w s pvcName labels = (Inl (Error errNoKeypair), []))"
  by (simp add: buildVMTemplate_def fetched_def Let_def)





section \<open>The pass that finds no VM\<close>

lemma createMissingVM_machine: "machineAfter (createMissingVM w s) = HarvesterMachine s"
  by (simp add: createMissingVM_def machineAfter_def split: prod.splits sum.splits fault.splits)

lemma createMissingVM_error:
  "createVMFromHarvesterMachine w s = (Inl (Error e), calls) \<Longrightarrow>
   createMissingVM w s = (Inr (Result False, None), HarvesterMachine s, calls)"
  by (simp add: createMissingVM_def)

lemma createMissingVM_no_calls: "callsOf (createMissingVM w s) = []"
  using createVM_no_calls[of w s]
  by (auto simp: createMissingVM_def callsOf_def split: fault.splits)

lemma preconditionsHold_harvester: "hm_Finalizers hm = [''harvestermachine.infrastructure.cluster.x-k8s.io''] \<Longrightarrow> hm_Annotations hm = Map.empty \<Longrightarrow> preconditionsHold harvester (scopeOf hm)"
  by (simp add: preconditionsHold_def scopeOf_def IsPaused_def ContainsFinalizer_def barePlatform_def harvester_def)

lemma lookupVM_harvester: "lookupVM harvester s = (Some emptyVM, Some NotFound)"
  by (simp add: lookupVM_def harvester_def barePlatform_def)

text \<open>
  Claim C3.  The spec has a failed creation surface as the error of the pass.  In the code
  the error of \<^verbatim>\<open>createVMFromHarvesterMachine\<close> is logged and dropped: whenever the checks
  hold, the lookup neither failed nor found the VM, and creation returns an error, the
  pass returns the empty result with a nil error.
\<close>

theorem ReconcileNormal_drops_create_error:
  assumes "preconditionsHold w s"
      and "lookupVM w s = (existingVM, err)"
      and "\<not> vmLookupFailed err"
      and "\<not> vmExists existingVM (HarvesterMachine s)"
      and "createVMFromHarvesterMachine w s = (Inl (Error e), calls)"
  shows "ReconcileNormal w s = (Inr (Result False, None), HarvesterMachine s, calls)"
  using assms by (simp add: ReconcileNormal_lookup createMissingVM_error)

text \<open>A machine whose image reference has no slash: creation fails, the pass returns nil.\<close>

theorem ReconcileNormal_drops_create_error_witness:
  "createVMFromHarvesterMachine harvester (scopeOf node1BadImage) =
     (Inl (Error (Wrap ''unable to find VM image reference in HarvesterMachine'' errMalformedImageName)), []) \<and>
   ReconcileNormal harvester (scopeOf node1BadImage) = (Inr (Result False, None), node1BadImage, [])"
proof -
  have c: "createVMFromHarvesterMachine harvester (scopeOf node1BadImage) =
     (Inl (Error (Wrap ''unable to find VM image reference in HarvesterMachine'' errMalformedImageName)), [])"
    by (simp add: createVMFromHarvesterMachine_def getImageFromHarvesterMachine_def Let_def Filter_def
          hasVMIMageName_def scopeOf_def node1BadImage_def node1_def)
  have p: "preconditionsHold harvester (scopeOf node1BadImage)"
    by (rule preconditionsHold_harvester) (simp_all add: node1BadImage_def node1_def)
  have v: "\<not> vmExists (Some emptyVM) (HarvesterMachine (scopeOf node1BadImage))"
    by (simp add: vmExists_def emptyVM_def scopeOf_def node1BadImage_def node1_def)
  have l: "\<not> vmLookupFailed (Some NotFound)" by (simp add: vmLookupFailed_def)
  from ReconcileNormal_drops_create_error[OF p lookupVM_harvester l v c] c
  show ?thesis by (simp add: scopeOf_def)
qed

text \<open>
  Claim C4.  The spec has a pass that finds no VM issue exactly one create call.  In the
  code such a pass issues no write at all: whenever the checks hold and the lookup
  reports not-found without a VM of the machine's name, the list of writes is empty.
\<close>

theorem ReconcileNormal_issues_no_create:
  assumes "preconditionsHold w s"
      and "lookupVM w s = (existingVM, Some NotFound)"
      and "\<not> vmExists existingVM (HarvesterMachine s)"
  shows "callsOf (ReconcileNormal w s) = []"
  using assms by (simp add: ReconcileNormal_lookup vmLookupFailed_def createMissingVM_no_calls)

text \<open>
  The machine \<open>node1\<close> on the platform \<open>harvester\<close>: its image resolves, its key pair and
  its bootstrap data exist, and still nothing is created.
\<close>

theorem ReconcileNormal_issues_no_create_witness:
  "preconditionsHold harvester (scopeOf node1) \<and>
   lookupVM harvester (scopeOf node1) = (Some emptyVM, Some NotFound) \<and>
   getImageFromHarvesterMachine harvester (Volumes (hm_Spec node1)) = Inr ubuntuImage \<and>
   callsOf (ReconcileNormal harvester (scopeOf node1)) = []"
proof -
  have p: "preconditionsHold harvester (scopeOf node1)"
    by (rule preconditionsHold_harvester) (simp_all add: node1_def)
  have v: "\<not> vmExists (Some emptyVM) (HarvesterMachine (scopeOf node1))"
    by (simp add: vmExists_def emptyVM_def scopeOf_def node1_def)
  have i: "getImageFromHarvesterMachine harvester (Volumes (hm_Spec node1)) = Inr ubuntuImage"
    by (simp add: getImageFromHarvesterMachine_def node1_def harvester_def ubuntuImage_def)
  from ReconcileNormal_issues_no_create[OF p lookupVM_harvester v] p lookupVM_harvester i
  show ?thesis by simp
qed

text \<open>What creation returns there.\<close>

lemma happy_path_trace:
  "createVMFromHarvesterMachine harvester (scopeOf node1) =
     (Inl (Error (Wrap ''unable to build VM definition''
        (Wrap ''error during merging cloud init user data from Harvester''
           (JsonError ''invalid character looking for beginning of value'')))), [])"
  by (simp add: createVMFromHarvesterMachine_def getImageFromHarvesterMachine_def Let_def Filter_def
        hasVMIMageName_def scopeOf_def node1_def harvester_def ubuntuImage_def barePlatform_def
        buildPVCAnnotationFromImageID_def buildVMTemplate_def isFreshKeyPair_def getCloudInitData_def
        merge_base_fails)

section \<open>The status a pass leaves\<close>

lemma observeExistingVM_status:
  "hm_Status (machineAfter (observeExistingVM w hm vm)) =
     (if Running vm = Some True then
        (case getIPAddressesFromVMI w vm of
           Inl err \<Rightarrow> hm_Status hm
         | Inr ips \<Rightarrow> (hm_Status hm)\<lparr>Addresses := ips, Ready := (ips \<noteq> [] \<or> Ready (hm_Status hm))\<rparr>)
      else hm_Status hm)"
proof (cases "Running vm")
  case None
  then show ?thesis by (simp add: observeExistingVM_def machineAfter_def)
next
  case (Some b)
  show ?thesis
  proof (cases "getIPAddressesFromVMI w vm")
    case (Inl err)
    with Some show ?thesis by (simp add: observeExistingVM_def machineAfter_def)
  next
    case (Inr ips)
    with Some show ?thesis
      by (cases b) (simp_all add: observeExistingVM_running machineAfter_def, simp add: observeExistingVM_def)
  qed
qed

lemma AddFinalizer_status: "hm_Status (AddFinalizer hm f) = hm_Status hm"
  by (simp add: AddFinalizer_def)

lemma ReconcileNormal_status_eq:
  "hm_Status (machineAfter (ReconcileNormal w s)) =
     (if preconditionsHold w s then
        (case lookupVM w s of
           (existingVM, err) \<Rightarrow>
             if vmLookupFailed err then hm_Status (HarvesterMachine s)
             else if vmExists existingVM (HarvesterMachine s)
               then hm_Status (machineAfter (observeExistingVM w (HarvesterMachine s) (the existingVM)))
             else hm_Status (HarvesterMachine s))
      else hm_Status (HarvesterMachine s))"
proof (cases "preconditionsHold w s")
  case True
  then show ?thesis
    by (simp add: ReconcileNormal_lookup createMissingVM_machine split: prod.splits)
      (simp add: machineAfter_def)
next
  case False
  then show ?thesis
    by (auto simp: preconditionsHold_def ReconcileNormal_def Let_def machineAfter_def AddFinalizer_status)
qed

lemma ReconcileNormal_observes:
  assumes "observes w s ips"
  shows "hm_Status (machineAfter (ReconcileNormal w s)) =
           (hm_Status (HarvesterMachine s))\<lparr>Addresses := ips, Ready := (ips \<noteq> [] \<or> Ready (hm_Status (HarvesterMachine s)))\<rparr>"
  using assms
  by (auto simp: observes_def ReconcileNormal_status_eq vmExists_def observeExistingVM_status)

lemma ReconcileNormal_not_observes:
  assumes "\<forall>ips. \<not> observes w s ips"
  shows "hm_Status (machineAfter (ReconcileNormal w s)) = hm_Status (HarvesterMachine s)"
proof (cases "preconditionsHold w s")
  case False
  then show ?thesis by (simp add: ReconcileNormal_status_eq)
next
  case True
  obtain existingVM err where l: "lookupVM w s = (existingVM, err)" by (cases "lookupVM w s")
  show ?thesis
  proof (cases "\<not> vmLookupFailed err \<and> vmExists existingVM (HarvesterMachine s)")
    case False
    with True l show ?thesis by (auto simp: ReconcileNormal_status_eq)
  next
    case ex: True
    then obtain vm where vm: "existingVM = Some vm" "vm_Name vm = hm_Name (HarvesterMachine s)"
      by (auto simp: vmExists_def split: option.splits)
    have "\<not> (Running vm = Some True \<and> getIPAddressesFromVMI w vm = Inr ips)" for ips
      using assms True l ex vm by (auto simp: observes_def)
    then have "hm_Status (machineAfter (observeExistingVM w (HarvesterMachine s) vm)) = hm_Status (HarvesterMachine s)"
      by (auto simp: observeExistingVM_status split: sum.splits)
    with True l ex vm show ?thesis by (simp add: ReconcileNormal_status_eq)
  qed
qed

lemma observes_example: "observes (harvesterWithVM [instanceNoInterface]) (scopeOf node1Ready) []"
proof -
  have "preconditionsHold (harvesterWithVM [instanceNoInterface]) (scopeOf node1Ready)"
    by (simp add: preconditionsHold_def scopeOf_def IsPaused_def ContainsFinalizer_def barePlatform_def
        harvesterWithVM_def harvester_def node1_def node1Ready_def)
  moreover have "getIPAddressesFromVMI (harvesterWithVM [instanceNoInterface]) runningVM = Inr []"
    by (simp add: getIPAddressesFromVMI_def harvesterWithVM_def instanceNoInterface_def appendInterfaces_def)
  ultimately show ?thesis
    by (auto simp: observes_def lookupVM_harvesterWithVM vmLookupFailed_def runningVM_def scopeOf_def
          node1Ready_def node1_def)
qed

text \<open>
  Claim C5, as the spec states it, fails: a pass on a machine whose status holds an
  address, with the VM running and its one instance reporting no interface, returns
  without error and leaves the address list empty.
\<close>

theorem ReconcileNormal_clears_addresses:
  "Addresses (hm_Status (HarvesterMachine (scopeOf node1Ready))) = [MachineAddress MachineExternalIP ''10.0.0.5''] \<and>
   outcome (ReconcileNormal (harvesterWithVM [instanceNoInterface]) (scopeOf node1Ready)) =
     Inr (Result False, None) \<and>
   Addresses (hm_Status (machineAfter (ReconcileNormal (harvesterWithVM [instanceNoInterface]) (scopeOf node1Ready)))) = []"
proof -
  have 1: "Addresses (hm_Status (HarvesterMachine (scopeOf node1Ready))) = [MachineAddress MachineExternalIP ''10.0.0.5'']"
    by (simp add: scopeOf_def node1Ready_def)
  have p: "preconditionsHold (harvesterWithVM [instanceNoInterface]) (scopeOf node1Ready)"
    using observes_example by (simp add: observes_def)
  have g: "getIPAddressesFromVMI (harvesterWithVM [instanceNoInterface]) runningVM = Inr []"
    by (simp add: getIPAddressesFromVMI_def harvesterWithVM_def instanceNoInterface_def appendInterfaces_def)
  have e: "vmExists (Some runningVM) (HarvesterMachine (scopeOf node1Ready))"
    by (simp add: vmExists_def runningVM_def scopeOf_def node1Ready_def node1_def)
  have "ReconcileNormal (harvesterWithVM [instanceNoInterface]) (scopeOf node1Ready) =
          observeExistingVM (harvesterWithVM [instanceNoInterface]) (HarvesterMachine (scopeOf node1Ready)) runningVM"
    using e by (simp add: ReconcileNormal_lookup[OF p] lookupVM_harvesterWithVM vmLookupFailed_def)
  then have 2: "outcome (ReconcileNormal (harvesterWithVM [instanceNoInterface]) (scopeOf node1Ready)) =
     Inr (Result False, None)"
    using g by (simp add: observeExistingVM_def outcome_def runningVM_def)
  have 3: "Addresses (hm_Status (machineAfter (ReconcileNormal (harvesterWithVM [instanceNoInterface]) (scopeOf node1Ready)))) = []"
    by (simp add: ReconcileNormal_observes[OF observes_example])
  from 1 2 3 show ?thesis by simp
qed

text \<open>
  Claim C5, amended.  A pass never turns the ready flag from true to false.  On the path
  where the checks hold, the VM exists, is set to run and address extraction succeeds,
  the address list is replaced by the extracted one (so it is emptied when the instances
  report no interface) and the ready flag is raised if that list is non-empty; on every
  other path the status is left as it was.
\<close>

theorem ReconcileNormal_status:
  "(Ready (hm_Status (HarvesterMachine s)) \<longrightarrow> Ready (hm_Status (machineAfter (ReconcileNormal w s)))) \<and>
   (\<forall>ips. observes w s ips \<longrightarrow>
      Addresses (hm_Status (machineAfter (ReconcileNormal w s))) = ips \<and>
      Ready (hm_Status (machineAfter (ReconcileNormal w s))) =
        (ips \<noteq> [] \<or> Ready (hm_Status (HarvesterMachine s)))) \<and>
   ((\<forall>ips. \<not> observes w s ips) \<longrightarrow>
      hm_Status (machineAfter (ReconcileNormal w s)) = hm_Status (HarvesterMachine s))"
proof -
  have B: "Addresses (hm_Status (machineAfter (ReconcileNormal w s))) = ips \<and>
      Ready (hm_Status (machineAfter (ReconcileNormal w s))) =
        (ips \<noteq> [] \<or> Ready (hm_Status (HarvesterMachine s)))" if "observes w s ips" for ips
    using ReconcileNormal_observes[OF that] by simp
  have C: "hm_Status (machineAfter (ReconcileNormal w s)) = hm_Status (HarvesterMachine s)"
    if "\<forall>ips. \<not> observes w s ips"
    using that by (rule ReconcileNormal_not_observes)
  have A: "Ready (hm_Status (machineAfter (ReconcileNormal w s)))" if "Ready (hm_Status (HarvesterMachine s))"
  proof (cases "\<exists>ips. observes w s ips")
    case True
    then obtain ips where "observes w s ips" by blast
    from B[OF this] that show ?thesis by simp
  next
    case False
    with C that show ?thesis by simp
  qed
  from A B C show ?thesis by blast
qed

text \<open>The observing path with no interface, and a pass whose lookup finds no VM.\<close>

theorem ReconcileNormal_status_witness:
  "Ready (hm_Status (HarvesterMachine (scopeOf node1Ready))) \<and>
   observes (harvesterWithVM [instanceNoInterface]) (scopeOf node1Ready) [] \<and>
   Ready (hm_Status (machineAfter (ReconcileNormal (harvesterWithVM [instanceNoInterface]) (scopeOf node1Ready)))) \<and>
   Addresses (hm_Status (machineAfter (ReconcileNormal (harvesterWithVM [instanceNoInterface]) (scopeOf node1Ready)))) = [] \<and>
   (\<forall>ips. \<not> observes harvester (scopeOf node1Ready) ips) \<and>
   hm_Status (machineAfter (ReconcileNormal harvester (scopeOf node1Ready))) = hm_Status node1Ready"
proof -
  have r: "Ready (hm_Status (HarvesterMachine (scopeOf node1Ready)))"
    by (simp add: scopeOf_def node1Ready_def)
  have n: "\<forall>ips. \<not> observes harvester (scopeOf node1Ready) ips"
    by (simp add: observes_def lookupVM_harvester emptyVM_def scopeOf_def node1Ready_def node1_def)
  from ReconcileNormal_status[of "scopeOf node1Ready" "harvesterWithVM [instanceNoInterface]"]
       ReconcileNormal_status[of "scopeOf node1Ready" harvester]
       r n observes_example
  show ?thesis by (simp add: scopeOf_def)
qed

section \<open>Deletion\<close>

text \<open>
  Claim C8.  In a delete pass where the delete of the cloud-init secret and the delete of
  the VM both report not-found: if the finalizer is on the machine, the pass returns
  without error and the finalizer is gone from the machine; if it is not, the pass
  returns the removal error.
\<close>

theorem ReconcileDelete_resources_absent:
  assumes "Secrets_Delete w (TargetNamespace (hm_Spec (HarvesterMachine s))) (hm_Name (HarvesterMachine s) @ ''-cloud-init'') = Some NotFound"
      and "VirtualMachines_Delete w (TargetNamespace (hm_Spec (HarvesterMachine s))) (hm_Name (HarvesterMachine s)) = Some NotFound"
  shows "(MachineFinalizer w \<in> set (hm_Finalizers (HarvesterMachine s)) \<longrightarrow>
            outcome (ReconcileDelete w s) = Inr (Result False, None) \<and>
            MachineFinalizer w \<notin> set (hm_Finalizers (machineAfter (ReconcileDelete w s)))) \<and>
         (MachineFinalizer w \<notin> set (hm_Finalizers (HarvesterMachine s)) \<longrightarrow>
            outcome (ReconcileDelete w s) =
              Inr (Result False, Some (errRemoveFinalizer w (HarvesterMachine s))))"
proof -
  let ?fs = "hm_Finalizers (HarvesterMachine s)"
  let ?f = "MachineFinalizer w"
  have len: "(length ?fs \<noteq> length (filter (\<lambda>x. x \<noteq> ?f) ?fs)) = (?f \<in> set ?fs)"
  proof
    assume "length ?fs \<noteq> length (filter (\<lambda>x. x \<noteq> ?f) ?fs)"
    then have "filter (\<lambda>x. x \<noteq> ?f) ?fs \<noteq> ?fs" by auto
    then show "?f \<in> set ?fs" by (auto simp: filter_id_conv)
  next
    assume "?f \<in> set ?fs"
    then have "length (filter (\<lambda>x. x \<noteq> ?f) ?fs) < length ?fs"
      by (intro length_filter_less[of ?f]) auto
    then show "length ?fs \<noteq> length (filter (\<lambda>x. x \<noteq> ?f) ?fs)" by simp
  qed
  show ?thesis
    using assms len
    by (simp add: ReconcileDelete_def deleteFailed_def RemoveFinalizer_def Let_def outcome_def machineAfter_def)
qed

text \<open>The machine \<open>node1\<close> with its finalizer, and the same without.\<close>

theorem ReconcileDelete_resources_absent_witness:
  "outcome (ReconcileDelete barePlatform (scopeOf node1)) = Inr (Result False, None) \<and>
   hm_Finalizers (machineAfter (ReconcileDelete barePlatform (scopeOf node1))) = [] \<and>
   outcome (ReconcileDelete barePlatform (scopeOf (node1\<lparr>hm_Finalizers := []\<rparr>))) =
     Inr (Result False, Some (errRemoveFinalizer barePlatform (node1\<lparr>hm_Finalizers := []\<rparr>)))"
proof -
  have a: "Secrets_Delete barePlatform ns (n @ ''-cloud-init'') = Some NotFound" for ns n
    by (simp add: barePlatform_def)
  have b: "VirtualMachines_Delete barePlatform ns n = Some NotFound" for ns n
    by (simp add: barePlatform_def)
  have f: "MachineFinalizer barePlatform = ''harvestermachine.infrastructure.cluster.x-k8s.io''"
    by (simp add: barePlatform_def)
  from ReconcileDelete_resources_absent[OF a b, of "scopeOf node1"]
  have 1: "outcome (ReconcileDelete barePlatform (scopeOf node1)) = Inr (Result False, None)"
    by (simp add: f scopeOf_def node1_def)
  have 2: "hm_Finalizers (machineAfter (ReconcileDelete barePlatform (scopeOf node1))) = []"
    by (simp add: ReconcileDelete_def deleteFailed_def RemoveFinalizer_def Let_def machineAfter_def
          barePlatform_def scopeOf_def node1_def)
  from ReconcileDelete_resources_absent[OF a b, of "scopeOf (node1\<lparr>hm_Finalizers := []\<rparr>)"]
  have 3: "outcome (ReconcileDelete barePlatform (scopeOf (node1\<lparr>hm_Finalizers := []\<rparr>))) =
     Inr (Result False, Some (errRemoveFinalizer barePlatform (node1\<lparr>hm_Finalizers := []\<rparr>)))"
    by (simp add: scopeOf_def)
  from 1 2 3 show ?thesis by simp
qed

end
